theory Spec2Isabelle
  imports Complex_Main
begin

section \<open>The link extractor of the budget tracker\<close>

text \<open>
  This theory embeds the link-extraction module of the budget tracker, the
  code that \<^verbatim>\<open>server.js\<close> requires as \<^verbatim>\<open>./link-extractor\<close>; its text is the
  second part of \<^verbatim>\<open>src/database.js\<close>, and the line numbers below are those of
  that file: \<^verbatim>\<open>fetchUrl\<close> (346 to 384), \<^verbatim>\<open>extractOpenGraph\<close> (402 to 431),
  \<^verbatim>\<open>extractJsonLd\<close> (444 to 473), \<^verbatim>\<open>extractFromSchema\<close> (476 to 492),
  \<^verbatim>\<open>extractBasicMeta\<close> (499 to 511), \<^verbatim>\<open>extractPrice\<close> and
  \<^verbatim>\<open>extractPriceFromMeta\<close> (519 to 542), which nothing calls, and the
  orchestrator \<^verbatim>\<open>extractProductInfo\<close> (550 to 596).

  The code runs on top of four things that are not part of the repository: the
  JavaScript built-ins (\<^verbatim>\<open>parseFloat\<close>, \<^verbatim>\<open>String.prototype.trim\<close>, regular
  expressions, truthiness), \<^verbatim>\<open>JSON.parse\<close>, the network (\<^verbatim>\<open>new URL\<close>, \<^verbatim>\<open>fetch\<close>)
  and the cheerio parser. The built-ins are modelled after ECMAScript as far as
  the code uses them; the outcomes of the other three are inputs of the model.
\<close>

subsection \<open>JavaScript strings\<close>

text \<open>
  A JavaScript string is a sequence of UTF-16 code units. A code unit is a
  natural number here; \<open>lit\<close> turns an ASCII literal into such a string.
\<close>

type_synonym jsstring = "nat list"

definition lit :: "string \<Rightarrow> jsstring" where
  "lit s = map of_char s"

text \<open>
  \<^verbatim>\<open>\d\<close> is the ASCII digits. \<^verbatim>\<open>\s\<close>, \<^verbatim>\<open>trim\<close> and the leading trim of
  \<^verbatim>\<open>parseFloat\<close> share one set: ECMAScript's WhiteSpace and LineTerminator
  (TAB, LF, VT, FF, CR, SP, NBSP, U+1680, U+2000 to U+200A, U+2028, U+2029,
  U+202F, U+205F, U+3000, U+FEFF).
\<close>

definition is_digit :: "nat \<Rightarrow> bool" where
  "is_digit c \<longleftrightarrow> 48 \<le> c \<and> c \<le> 57"

definition is_space :: "nat \<Rightarrow> bool" where
  "is_space c \<longleftrightarrow>
     (9 \<le> c \<and> c \<le> 13) \<or> c = 32 \<or> c = 160 \<or> c = 5760 \<or> (8192 \<le> c \<and> c \<le> 8202) \<or>
     c = 8232 \<or> c = 8233 \<or> c = 8239 \<or> c = 8287 \<or> c = 12288 \<or> c = 65279"

definition trim :: "jsstring \<Rightarrow> jsstring" where
  "trim s = rev (dropWhile is_space (rev (dropWhile is_space s)))"

text \<open>
  \<^verbatim>\<open>s.match(/[...]+/)\<close> without the global flag: the leftmost, longest run of
  characters of the class; \<^verbatim>\<open>null\<close> when no character of \<open>s\<close> is in the class.
\<close>

definition match_run :: "(nat \<Rightarrow> bool) \<Rightarrow> jsstring \<Rightarrow> jsstring option" where
  "match_run cls s =
     (case dropWhile (\<lambda>c. \<not> cls c) s of
        [] \<Rightarrow> None
      | c # r \<Rightarrow> Some (takeWhile cls (c # r)))"

text \<open>\<^verbatim>\<open>s.replace(/[...]/g, r)\<close>: every character of the class becomes \<open>r\<close>.\<close>

definition replace_all :: "(nat \<Rightarrow> bool) \<Rightarrow> jsstring \<Rightarrow> jsstring \<Rightarrow> jsstring" where
  "replace_all cls r s = concat (map (\<lambda>c. if cls c then r else [c]) s)"

text \<open>\<^verbatim>\<open>s.replace(',', '.')\<close> with a string pattern: the first occurrence only.\<close>

fun replace_first :: "nat \<Rightarrow> jsstring \<Rightarrow> jsstring \<Rightarrow> jsstring" where
  "replace_first p r [] = []"
| "replace_first p r (c # s) = (if c = p then r @ s else c # replace_first p r s)"

subsection \<open>JavaScript numbers and \<^verbatim>\<open>parseFloat\<close>\<close>

text \<open>
  A number is \<^verbatim>\<open>NaN\<close>, an infinity or a finite value. The finite values are kept
  exact, as the rational that the decimal text denotes: the rounding of that
  value to binary64 (and with it overflow to an infinity and underflow to zero
  on texts of several hundred digits) is outside the model. \<open>Fin 0\<close> stands for
  both zeros, which the code cannot tell apart.
\<close>

datatype jsnum = NaN | Fin rat | PosInf | NegInf

definition num_truthy :: "jsnum \<Rightarrow> bool" where
  "num_truthy n \<longleftrightarrow> n \<noteq> NaN \<and> n \<noteq> Fin 0"

definition isNaN :: "jsnum \<Rightarrow> bool" where
  "isNaN n \<longleftrightarrow> n = NaN"

text \<open>\<^verbatim>\<open>n > 0\<close> on a number.\<close>

definition num_pos :: "jsnum \<Rightarrow> bool" where
  "num_pos n = (case n of NaN \<Rightarrow> False | Fin q \<Rightarrow> 0 < q | PosInf \<Rightarrow> True | NegInf \<Rightarrow> False)"

definition digits_val :: "jsstring \<Rightarrow> nat" where
  "digits_val ds = foldl (\<lambda>a c. 10 * a + (c - 48)) 0 ds"

definition pow10 :: "int \<Rightarrow> rat" where
  "pow10 k = (if 0 \<le> k then 10 ^ nat k else 1 / 10 ^ nat (- k))"

text \<open>
  The exponent part \<^verbatim>\<open>e\<close> or \<^verbatim>\<open>E\<close>, an optional sign, one digit or more. It
  belongs to the literal only when it is complete; otherwise the literal ends
  before it and the exponent is 0.
\<close>

definition exponent_part :: "jsstring \<Rightarrow> int" where
  "exponent_part r =
     (case r of
        [] \<Rightarrow> 0
      | e # r1 \<Rightarrow>
          if e \<noteq> 101 \<and> e \<noteq> 69 then 0
          else (case r1 of
                  [] \<Rightarrow> 0
                | s # r2 \<Rightarrow>
                    if s = 43 then int (digits_val (takeWhile is_digit r2))
                    else if s = 45 then - int (digits_val (takeWhile is_digit r2))
                    else int (digits_val (takeWhile is_digit r1))))"

text \<open>
  An unsigned \<^verbatim>\<open>StrDecimalLiteral\<close> at the start of the text: \<^verbatim>\<open>Infinity\<close>, or
  digits with an optional fraction (\<^verbatim>\<open>12\<close>, \<^verbatim>\<open>12.\<close>, \<^verbatim>\<open>12.5\<close>, \<^verbatim>\<open>.5\<close>) and an optional
  exponent. The longest such prefix is parsed; the rest of the text is ignored.
  \<open>None\<close> when no prefix is a literal (a lone \<^verbatim>\<open>.\<close> is none).
\<close>

definition unsigned_literal :: "jsstring \<Rightarrow> rat option" where
  "unsigned_literal s =
     (let ip = takeWhile is_digit s;
          r1 = dropWhile is_digit s;
          dot = (r1 \<noteq> [] \<and> hd r1 = 46);
          fp = (if dot then takeWhile is_digit (tl r1) else []);
          r2 = (if dot then dropWhile is_digit (tl r1) else r1)
      in if ip = [] \<and> fp = [] then None
         else Some (of_nat (digits_val (ip @ fp)) * pow10 (exponent_part r2 - int (length fp))))"

definition signed_literal :: "bool \<Rightarrow> jsstring \<Rightarrow> jsnum" where
  "signed_literal neg s =
     (if take 8 s = lit ''Infinity'' then (if neg then NegInf else PosInf)
      else (case unsigned_literal s of
              None \<Rightarrow> NaN
            | Some q \<Rightarrow> Fin (if neg then - q else q)))"

text \<open>\<^verbatim>\<open>parseFloat\<close> on a string.\<close>

definition parseFloat :: "jsstring \<Rightarrow> jsnum" where
  "parseFloat str =
     (case dropWhile is_space str of
        [] \<Rightarrow> NaN
      | c # r \<Rightarrow>
          if c = 45 then signed_literal True r
          else if c = 43 then signed_literal False r
          else signed_literal False (c # r))"

subsection \<open>JavaScript values and objects parsed from JSON\<close>

datatype jsval =
    JUndefined
  | JNull
  | JBool bool
  | JNum jsnum
  | JStr jsstring
  | JArr "jsval list"
  | JObj "(jsstring \<times> jsval) list"

text \<open>What \<^verbatim>\<open>if (v)\<close> and \<^verbatim>\<open>!v\<close> test.\<close>

fun truthy :: "jsval \<Rightarrow> bool" where
  "truthy JUndefined = False"
| "truthy JNull = False"
| "truthy (JBool b) = b"
| "truthy (JNum n) = num_truthy n"
| "truthy (JStr s) = (s \<noteq> [])"
| "truthy (JArr xs) = True"
| "truthy (JObj kvs) = True"

text \<open>The exceptions that the JSON-LD strategy can raise and swallows.\<close>

datatype thrown = SyntaxError | TypeError

text \<open>
  Reading a property, \<^verbatim>\<open>v.k\<close> or \<^verbatim>\<open>v['k']\<close>, for the keys the code reads
  (\<^verbatim>\<open>@type\<close>, \<^verbatim>\<open>name\<close>, \<^verbatim>\<open>description\<close>, \<^verbatim>\<open>image\<close>, \<^verbatim>\<open>offers\<close>, \<^verbatim>\<open>price\<close>): a
  TypeError on \<^verbatim>\<open>null\<close> and \<^verbatim>\<open>undefined\<close>, the member of an object, and
  \<^verbatim>\<open>undefined\<close> on a missing member and on numbers, booleans, strings and
  arrays, which have none of these properties.
\<close>

fun get_prop :: "jsval \<Rightarrow> jsstring \<Rightarrow> thrown + jsval" where
  "get_prop JUndefined k = Inl TypeError"
| "get_prop JNull k = Inl TypeError"
| "get_prop (JObj kvs) k = Inr (case map_of kvs k of None \<Rightarrow> JUndefined | Some v \<Rightarrow> v)"
| "get_prop v k = Inr JUndefined"

text \<open>\<^verbatim>\<open>Array.isArray(v)\<close> and \<^verbatim>\<open>v[0]\<close> on an array (\<^verbatim>\<open>undefined\<close> when it is empty).\<close>

fun isArray :: "jsval \<Rightarrow> bool" where
  "isArray (JArr xs) = True"
| "isArray v = False"

fun first_entry :: "jsval \<Rightarrow> jsval" where
  "first_entry (JArr (x # xs)) = x"
| "first_entry v = JUndefined"

text \<open>
  \<^verbatim>\<open>parseFloat(v)\<close> on a value: \<^verbatim>\<open>parseFloat\<close> of \<^verbatim>\<open>String(v)\<close>. A string is its
  own text. The text of a number parses back to that number. The texts
  \<^verbatim>\<open>undefined\<close>, \<^verbatim>\<open>null\<close>, \<^verbatim>\<open>true\<close>, \<^verbatim>\<open>false\<close> and \<^verbatim>\<open>[object Object]\<close> start with no
  literal. The text of an array joins the texts of its entries with commas
  (the empty text for \<^verbatim>\<open>null\<close> and \<^verbatim>\<open>undefined\<close>); a comma ends every literal, so
  only the first entry decides.
\<close>

fun parseFloat_val :: "jsval \<Rightarrow> jsnum" where
  "parseFloat_val (JStr s) = parseFloat s"
| "parseFloat_val (JNum n) = n"
| "parseFloat_val (JArr (x # xs)) = parseFloat_val x"
| "parseFloat_val v = NaN"

subsection \<open>The parsed document\<close>

text \<open>
  \<^verbatim>\<open>cheerio.load(html)\<close> gives the document as the list of its elements in
  document order. Of an element the code reads the tag name, the attributes,
  the text (\<^verbatim>\<open>.text()\<close>) and, for a script element, \<^verbatim>\<open>JSON.parse(el.html())\<close>:
  \<open>json_html\<close> is the outcome of that call, \<open>None\<close> when it throws a SyntaxError.
\<close>

record element =
  tagName :: jsstring
  attribs :: "(jsstring \<times> jsstring) list"
  textContent :: jsstring
  json_html :: "jsval option"

type_synonym document = "element list"

text \<open>
  \<^verbatim>\<open>String.prototype.toLowerCase\<close>, as far as it can matter against an ASCII
  pattern: the ASCII capitals and the Kelvin sign U+212A are the code units
  whose lower-case text is an ASCII letter alone. Every other code unit is left
  as it is; its lower-case text holds a code unit outside ASCII (U+0130 gives
  \<^verbatim>\<open>i\<close> followed by U+0307).
\<close>

definition to_lower :: "nat \<Rightarrow> nat" where
  "to_lower c = (if 65 \<le> c \<and> c \<le> 90 then c + 32 else if c = 8490 then 107 else c)"

definition toLowerCase :: "jsstring \<Rightarrow> jsstring" where
  "toLowerCase s = map to_lower s"

text \<open>
  The selectors \<^verbatim>\<open>$('tag[a="v"]')\<close>, \<^verbatim>\<open>$('tag')\<close> and \<^verbatim>\<open>$('[a]')\<close>. The parser
  delivers tag and attribute names in lower case. The selector engine of
  cheerio compares an attribute value with the pattern exactly, except for the
  attributes whose values HTML holds to be case-insensitive: there it
  compares the lengths and the lower-case texts. Of the three attributes the
  code selects by, \<^verbatim>\<open>type\<close> is one of those; \<^verbatim>\<open>property\<close> and \<^verbatim>\<open>name\<close> are not.
\<close>

definition ignores_case :: "jsstring \<Rightarrow> bool" where
  "ignores_case a \<longleftrightarrow> a = lit ''type''"

definition attr_equals :: "jsstring \<Rightarrow> jsstring \<Rightarrow> jsstring \<Rightarrow> bool" where
  "attr_equals a v x =
     (if ignores_case a then length x = length v \<and> toLowerCase x = toLowerCase v else x = v)"

definition select_attr :: "document \<Rightarrow> jsstring \<Rightarrow> jsstring \<Rightarrow> jsstring \<Rightarrow> element list" where
  "select_attr doc tg a v =
     filter (\<lambda>e. tagName e = tg \<and>
                 (case map_of (attribs e) a of None \<Rightarrow> False | Some x \<Rightarrow> attr_equals a v x)) doc"

definition select_tag :: "document \<Rightarrow> jsstring \<Rightarrow> element list" where
  "select_tag doc tg = filter (\<lambda>e. tagName e = tg) doc"

definition select_has :: "document \<Rightarrow> jsstring \<Rightarrow> element list" where
  "select_has doc a = filter (\<lambda>e. map_of (attribs e) a \<noteq> None) doc"

text \<open>
  \<^verbatim>\<open>.attr(a)\<close> reads the attribute of the first selected element: \<^verbatim>\<open>undefined\<close>
  (\<open>None\<close>) when nothing is selected or that element has no such attribute.
  \<^verbatim>\<open>.text()\<close> joins the texts of all selected elements.
\<close>

definition attr :: "element list \<Rightarrow> jsstring \<Rightarrow> jsstring option" where
  "attr sel a = (case sel of [] \<Rightarrow> None | e # es \<Rightarrow> map_of (attribs e) a)"

definition text_of :: "element list \<Rightarrow> jsstring" where
  "text_of sel = concat (map textContent sel)"

text \<open>\<^verbatim>\<open>if (s)\<close> on a string or \<^verbatim>\<open>undefined\<close>: defined and not empty.\<close>

definition present :: "jsstring option \<Rightarrow> bool" where
  "present s \<longleftrightarrow> s \<noteq> None \<and> s \<noteq> Some []"

subsection \<open>The extracted record\<close>

text \<open>
  The object \<^verbatim>\<open>data\<close>. A field is \<open>None\<close> when the object has no such key. The
  price is always assigned from \<^verbatim>\<open>parseFloat\<close>, so it is a number; the other
  fields can hold any value that the JSON-LD data holds, also \<^verbatim>\<open>undefined\<close>.
\<close>

record product =
  title :: "jsval option"
  price :: "jsnum option"
  description :: "jsval option"
  image' :: "jsval option"

definition empty_data :: product where
  "empty_data = \<lparr>title = None, price = None, description = None, image' = None\<rparr>"

text \<open>\<^verbatim>\<open>Object.keys(data).length\<close>.\<close>

definition keys_length :: "product \<Rightarrow> nat" where
  "keys_length d =
     (if title d = None then 0 else 1) + (if price d = None then 0 else 1) +
     (if description d = None then 0 else 1) + (if image' d = None then 0 else 1)"

text \<open>\<^verbatim>\<open>!data.title\<close> and \<^verbatim>\<open>!data.price\<close> read a missing key as \<^verbatim>\<open>undefined\<close>.\<close>

definition title_truthy :: "product \<Rightarrow> bool" where
  "title_truthy d = (case title d of None \<Rightarrow> False | Some v \<Rightarrow> truthy v)"

definition price_truthy :: "product \<Rightarrow> bool" where
  "price_truthy d = (case price d of None \<Rightarrow> False | Some n \<Rightarrow> num_truthy n)"

subsection \<open>Open Graph strategy\<close>

text \<open>The classes of \<^verbatim>\<open>/[\d,.\s]+/\<close> and \<^verbatim>\<open>/[,\s]/g\<close>.\<close>

definition price_char :: "nat \<Rightarrow> bool" where
  "price_char c \<longleftrightarrow> is_digit c \<or> c = 44 \<or> c = 46 \<or> is_space c"

definition comma_or_space :: "nat \<Rightarrow> bool" where
  "comma_or_space c \<longleftrightarrow> c = 44 \<or> is_space c"

definition og :: "document \<Rightarrow> string \<Rightarrow> jsstring option" where
  "og doc p = attr (select_attr doc (lit ''meta'') (lit ''property'') (lit p)) (lit ''content'')"

definition extractOpenGraph :: "document \<Rightarrow> product option" where
  "extractOpenGraph doc =
     (let data = empty_data;
          title = og doc ''og:title'';
          price = og doc ''og:price'';
          description = og doc ''og:description'';
          image = og doc ''og:image'';
          data = (case title of
                    None \<Rightarrow> data
                  | Some t \<Rightarrow> if t \<noteq> [] then data\<lparr>title := Some (JStr (trim t))\<rparr> else data);
          data = (case price of
                    None \<Rightarrow> data
                  | Some p \<Rightarrow>
                      if p \<noteq> [] then
                        (case match_run price_char p of
                           None \<Rightarrow> data
                         | Some m \<Rightarrow>
                             data\<lparr>price := Some (parseFloat (replace_all comma_or_space (lit ''.'') m))\<rparr>)
                      else data);
          data = (case description of
                    None \<Rightarrow> data
                  | Some t \<Rightarrow> if t \<noteq> [] then data\<lparr>description := Some (JStr (trim t))\<rparr> else data);
          data = (case image of
                    None \<Rightarrow> data
                  | Some t \<Rightarrow> if t \<noteq> [] then data\<lparr>image' := Some (JStr (trim t))\<rparr> else data)
      in if keys_length data > 0 then Some data else None)"

subsection \<open>JSON-LD strategy\<close>

text \<open>
  \<^verbatim>\<open>extractFromSchema(obj)\<close>. It throws a TypeError when \<^verbatim>\<open>obj\<close> is \<^verbatim>\<open>null\<close> or
  \<^verbatim>\<open>undefined\<close>, and when \<^verbatim>\<open>obj.offers\<close> is an array whose first entry is \<^verbatim>\<open>null\<close>
  or missing (\<^verbatim>\<open>offer.price\<close> on \<^verbatim>\<open>null\<close> or \<^verbatim>\<open>undefined\<close>).
\<close>

definition extractFromSchema :: "jsval \<Rightarrow> thrown + product option" where
  "extractFromSchema obj =
     (case get_prop obj (lit ''name'') of
        Inl x \<Rightarrow> Inl x
      | Inr name \<Rightarrow>
     (case get_prop obj (lit ''description'') of
        Inl x \<Rightarrow> Inl x
      | Inr descr \<Rightarrow>
     (case get_prop obj (lit ''image'') of
        Inl x \<Rightarrow> Inl x
      | Inr img \<Rightarrow>
     (case get_prop obj (lit ''offers'') of
        Inl x \<Rightarrow> Inl x
      | Inr offers \<Rightarrow>
          let data = empty_data;
              data = (if truthy name then data\<lparr>title := Some name\<rparr> else data);
              data = (if truthy descr then data\<lparr>description := Some descr\<rparr> else data);
              data = (if truthy img
                      then data\<lparr>image' := Some (if isArray img then first_entry img else img)\<rparr>
                      else data)
          in if truthy offers then
               (let offer = (if isArray offers then first_entry offers else offers)
                in case get_prop offer (lit ''price'') of
                     Inl x \<Rightarrow> Inl x
                   | Inr p \<Rightarrow>
                       let data = (if truthy p then data\<lparr>price := Some (parseFloat_val p)\<rparr> else data)
                       in Inr (if keys_length data > 0 then Some data else None))
             else Inr (if keys_length data > 0 then Some data else None)))))"

text \<open>
  The body of the \<^verbatim>\<open>for\<close> loop of \<^verbatim>\<open>extractJsonLd\<close> over the selected script
  elements, from the current one on: \<open>Inl\<close> is an exception leaving the loop,
  \<open>Inr\<close> the value returned (\<^verbatim>\<open>null\<close> after the last element).
\<close>

fun scan_scripts :: "element list \<Rightarrow> thrown + product option" where
  "scan_scripts [] = Inr None"
| "scan_scripts (script # rest) =
     (case json_html script of
        None \<Rightarrow> Inl SyntaxError
      | Some json \<Rightarrow>
     (case get_prop json (lit ''@type'') of
        Inl x \<Rightarrow> Inl x
      | Inr ty \<Rightarrow>
          if ty = JStr (lit ''Product'') \<or> ty = JStr (lit ''Offer'') then extractFromSchema json
          else
     (case get_prop json (lit ''offers'') of
        Inl x \<Rightarrow> Inl x
      | Inr offers \<Rightarrow>
          if \<not> truthy offers then scan_scripts rest
          else
     (case get_prop offers (lit ''price'') of
        Inl x \<Rightarrow> Inl x
      | Inr p \<Rightarrow>
          if \<not> truthy p then scan_scripts rest
          else
     (case get_prop json (lit ''name'') of
        Inl x \<Rightarrow> Inl x
      | Inr name \<Rightarrow>
     (case get_prop json (lit ''description'') of
        Inl x \<Rightarrow> Inl x
      | Inr descr \<Rightarrow>
          Inr (Some \<lparr>title = Some name, price = Some (parseFloat_val p),
                     description = Some descr, image' = None\<rparr>)))))))"

text \<open>
  A block that the loop passes over: its text parses, it is not typed
  \<^verbatim>\<open>Product\<close> or \<^verbatim>\<open>Offer\<close>, and it has no truthy \<^verbatim>\<open>offers.price\<close>.
\<close>

definition irrelevant :: "element \<Rightarrow> bool" where
  "irrelevant s =
     (case json_html s of
        None \<Rightarrow> False
      | Some json \<Rightarrow>
     (case get_prop json (lit ''@type'') of
        Inl x \<Rightarrow> False
      | Inr ty \<Rightarrow>
          ty \<noteq> JStr (lit ''Product'') \<and> ty \<noteq> JStr (lit ''Offer'') \<and>
     (case get_prop json (lit ''offers'') of
        Inl x \<Rightarrow> False
      | Inr offers \<Rightarrow>
          \<not> truthy offers \<or>
     (case get_prop offers (lit ''price'') of
        Inl x \<Rightarrow> False
      | Inr p \<Rightarrow> \<not> truthy p))))"

definition jsonLdScripts :: "document \<Rightarrow> element list" where
  "jsonLdScripts doc = select_attr doc (lit ''script'') (lit ''type'') (lit ''application/ld+json'')"

text \<open>The \<^verbatim>\<open>try\<close> around the whole loop: any exception makes the result \<^verbatim>\<open>null\<close>.\<close>

definition extractJsonLd :: "document \<Rightarrow> product option" where
  "extractJsonLd doc =
     (case scan_scripts (jsonLdScripts doc) of
        Inl x \<Rightarrow> None
      | Inr r \<Rightarrow> r)"

subsection \<open>Basic meta strategy\<close>

definition meta_name :: "document \<Rightarrow> string \<Rightarrow> jsstring option" where
  "meta_name doc n = attr (select_attr doc (lit ''meta'') (lit ''name'') (lit n)) (lit ''content'')"

definition extractBasicMeta :: "document \<Rightarrow> product option" where
  "extractBasicMeta doc =
     (let data = empty_data;
          title = (if present (meta_name doc ''title'') then meta_name doc ''title''
                   else Some (text_of (select_tag doc (lit ''title''))));
          description = meta_name doc ''description'';
          data = (case title of
                    None \<Rightarrow> data
                  | Some t \<Rightarrow> if t \<noteq> [] then data\<lparr>title := Some (JStr (trim t))\<rparr> else data);
          data = (case description of
                    None \<Rightarrow> data
                  | Some t \<Rightarrow> if t \<noteq> [] then data\<lparr>description := Some (JStr (trim t))\<rparr> else data)
      in if keys_length data > 0 then Some data else None)"

subsection \<open>Price from meta tags or data attributes\<close>

text \<open>
  \<^verbatim>\<open>extractPriceFromMeta\<close> (and \<^verbatim>\<open>extractPrice\<close>, which only calls it). No other
  function calls them. Their normalisation drops every character other than
  digits, dots and commas, turns the first comma into a dot, and keeps only a
  price above 0.
\<close>

definition price_text_char :: "nat \<Rightarrow> bool" where
  "price_text_char c \<longleftrightarrow> is_digit c \<or> c = 46 \<or> c = 44"

definition meta_price :: "jsstring \<Rightarrow> jsnum" where
  "meta_price s = parseFloat (replace_first 44 (lit ''.'') (filter price_text_char s))"

definition extractPriceFromMeta :: "document \<Rightarrow> jsnum option" where
  "extractPriceFromMeta doc =
     (let ogPrice = og doc ''og:price'';
          dataPrice = attr (select_has doc (lit ''data-price'')) (lit ''data-price'');
          fromData = (case dataPrice of
                        None \<Rightarrow> None
                      | Some t \<Rightarrow> if t \<noteq> [] \<and> num_pos (meta_price t) then Some (meta_price t) else None)
      in case ogPrice of
           None \<Rightarrow> fromData
         | Some s \<Rightarrow> if s \<noteq> [] \<and> num_pos (meta_price s) then Some (meta_price s) else fromData)"

definition extractPrice :: "document \<Rightarrow> jsnum option" where
  "extractPrice doc = extractPriceFromMeta doc"

subsection \<open>Fetching the page\<close>

text \<open>
  A thrown error has a name and a message; \<^verbatim>\<open>new Error(msg)\<close> is named
  \<^verbatim>\<open>Error\<close>. A response has its \<^verbatim>\<open>ok\<close> flag, its status and the outcome of
  \<^verbatim>\<open>response.text()\<close>.
\<close>

record js_error =
  name :: jsstring
  message :: jsstring

definition Error :: "jsstring \<Rightarrow> js_error" where
  "Error msg = \<lparr>name = lit ''Error'', message = msg\<rparr>"

record response =
  ok :: bool
  status :: nat
  body_text :: "js_error + jsstring"

text \<open>
  The world outside: whether \<^verbatim>\<open>new URL(url)\<close> accepts the text, how the promise
  of \<^verbatim>\<open>fetch\<close> settles for a URL when the abort timer is set to the given number
  of milliseconds (a rejection, named \<^verbatim>\<open>AbortError\<close> when the timer fired first,
  or a response), and what \<^verbatim>\<open>cheerio.load\<close> makes of a markup text. A promise that
  never settles is outside the model.
\<close>

record web =
  URL_valid :: "jsstring \<Rightarrow> bool"
  fetch :: "jsstring \<Rightarrow> nat \<Rightarrow> js_error + response"
  cheerio_load :: "jsstring \<Rightarrow> document"

text \<open>The decimal digits of a status code, as the template literal prints it.\<close>

fun decimal :: "nat \<Rightarrow> jsstring" where
  "decimal n = (if n < 10 then [48 + n] else decimal (n div 10) @ [48 + n mod 10])"

declare decimal.simps [simp del]

definition fetchUrl :: "web \<Rightarrow> jsstring \<Rightarrow> nat \<Rightarrow> js_error + jsstring" where
  "fetchUrl w url timeout =
     (let attempt =
            (if \<not> URL_valid w url
             then Inl (Error (lit ''Invalid URL format. Please enter a valid URL.''))
             else (case fetch w url timeout of
                     Inl e \<Rightarrow> Inl e
                   | Inr response \<Rightarrow>
                       if \<not> ok response
                       then Inl (Error (lit ''Website returned error: '' @ decimal (status response)))
                       else body_text response))
      in case attempt of
           Inl error \<Rightarrow>
             if name error = lit ''AbortError''
             then Inl (Error (lit ''Request timed out. Website took too long to respond.''))
             else Inl error
         | Inr html \<Rightarrow> Inr html)"

subsection \<open>The orchestrator\<close>

text \<open>
  \<^verbatim>\<open>extractProductInfo\<close> in its two halves. Steps 3 and 4 choose the record: the
  strategies in order, each one tried only while \<^verbatim>\<open>data\<close> is still \<^verbatim>\<open>null\<close>, and
  the empty object when all three gave \<^verbatim>\<open>null\<close>.
\<close>

definition select_data :: "document \<Rightarrow> product" where
  "select_data doc =
     (let data = extractOpenGraph doc;
          data = (if data = None then extractJsonLd doc else data);
          data = (if data = None then extractBasicMeta doc else data)
      in case data of None \<Rightarrow> empty_data | Some d \<Rightarrow> d)"

text \<open>
  Steps 5 and 6 validate it: the error when neither \<^verbatim>\<open>data.title\<close> nor
  \<^verbatim>\<open>data.price\<close> is truthy, then \<^verbatim>\<open>delete data.price\<close> under the condition
  \<^verbatim>\<open>data.price && isNaN(data.price)\<close>.
\<close>

definition validate_data :: "product \<Rightarrow> js_error + product" where
  "validate_data data =
     (if \<not> title_truthy data \<and> \<not> price_truthy data
      then Inl (Error (lit ''Could not find product information on this page.''))
      else Inr (if price_truthy data \<and> (case price data of None \<Rightarrow> False | Some n \<Rightarrow> isNaN n)
                then data\<lparr>price := None\<rparr>
                else data))"

text \<open>
  The whole function: an error of \<^verbatim>\<open>fetchUrl\<close> is passed on as it is (the
  \<^verbatim>\<open>catch\<close> logs and rethrows); the timeout is the default of 5000 ms.
\<close>

definition extractProductInfo :: "web \<Rightarrow> jsstring \<Rightarrow> js_error + product" where
  "extractProductInfo w url =
     (case fetchUrl w url 5000 of
        Inl e \<Rightarrow> Inl e
      | Inr html \<Rightarrow> validate_data (select_data (cheerio_load w html)))"

subsection \<open>The words of the specification\<close>

text \<open>The failure that the specification calls \<^verbatim>\<open>ExtractionFailed\<close>.\<close>

definition ExtractionFailed :: js_error where
  "ExtractionFailed = Error (lit ''Could not find product information on this page.'')"

text \<open>
  "The first strategy that produced a non-empty record", over the outputs of
  the strategies in their order; the empty record when there is none.
\<close>

fun first_nonempty :: "product option list \<Rightarrow> product" where
  "first_nonempty [] = empty_data"
| "first_nonempty (None # rs) = first_nonempty rs"
| "first_nonempty (Some d # rs) = (if keys_length d > 0 then d else first_nonempty rs)"

text \<open>
  "No Open Graph tags": no meta element with one of the four properties.
  "None of the recognized signals": no Open Graph tags, no JSON-LD script, no
  meta element named title or description and no title element.
\<close>

definition no_open_graph :: "document \<Rightarrow> bool" where
  "no_open_graph doc \<longleftrightarrow>
     list_all (\<lambda>p. select_attr doc (lit ''meta'') (lit ''property'') (lit p) = [])
       [''og:title'', ''og:price'', ''og:description'', ''og:image'']"

definition no_signals :: "document \<Rightarrow> bool" where
  "no_signals doc \<longleftrightarrow>
     no_open_graph doc \<and> jsonLdScripts doc = [] \<and>
     select_attr doc (lit ''meta'') (lit ''name'') (lit ''title'') = [] \<and>
     select_attr doc (lit ''meta'') (lit ''name'') (lit ''description'') = [] \<and>
     select_tag doc (lit ''title'') = []"

text \<open>The member of a parsed object, \<^verbatim>\<open>undefined\<close> when it has none.\<close>

definition member :: "(jsstring \<times> jsval) list \<Rightarrow> string \<Rightarrow> jsval" where
  "member kvs k = (case map_of kvs (lit k) of None \<Rightarrow> JUndefined | Some v \<Rightarrow> v)"

text \<open>
  "\<^verbatim>\<open>offers[0].price\<close>, first entry when offers is an array": the price member of
  the offer, \<^verbatim>\<open>undefined\<close> where the code would throw on reading it.
\<close>

definition offer_price :: "jsval \<Rightarrow> jsval" where
  "offer_price offers =
     (case get_prop (if isArray offers then first_entry offers else offers) (lit ''price'') of
        Inl x \<Rightarrow> JUndefined
      | Inr p \<Rightarrow> p)"



subsection \<open>Fixtures\<close>

text \<open>
  Elements as the parser delivers them, a web on which every URL is answered
  with status 200 by a page that parses to the given document, and the JSON-LD
  block \<^verbatim>\<open>{"@type":"Product","name":"BILLY","offers":{"price":"399"}}\<close> of the
  specification.
\<close>

definition meta_property :: "string \<Rightarrow> jsstring \<Rightarrow> element" where
  "meta_property p c =
     \<lparr>tagName = lit ''meta'', attribs = [(lit ''property'', lit p), (lit ''content'', c)],
      textContent = [], json_html = None\<rparr>"

definition meta_named :: "string \<Rightarrow> jsstring \<Rightarrow> element" where
  "meta_named n c =
     \<lparr>tagName = lit ''meta'', attribs = [(lit ''name'', lit n), (lit ''content'', c)],
      textContent = [], json_html = None\<rparr>"

definition title_element :: "jsstring \<Rightarrow> element" where
  "title_element t = \<lparr>tagName = lit ''title'', attribs = [], textContent = t, json_html = None\<rparr>"

definition ld_script :: "jsval option \<Rightarrow> element" where
  "ld_script j =
     \<lparr>tagName = lit ''script'', attribs = [(lit ''type'', lit ''application/ld+json'')],
      textContent = [], json_html = j\<rparr>"

definition ld_script_as :: "string \<Rightarrow> jsval option \<Rightarrow> element" where
  "ld_script_as ty j =
     \<lparr>tagName = lit ''script'', attribs = [(lit ''type'', lit ty)],
      textContent = [], json_html = j\<rparr>"

definition serving :: "document \<Rightarrow> web" where
  "serving doc =
     \<lparr>URL_valid = (\<lambda>u. True),
      fetch = (\<lambda>u t. Inr \<lparr>ok = True, status = 200, body_text = Inr []\<rparr>),
      cheerio_load = (\<lambda>h. doc)\<rparr>"

definition billy :: jsval where
  "billy = JObj [(lit ''@type'', JStr (lit ''Product'')), (lit ''name'', JStr (lit ''BILLY'')),
                 (lit ''offers'', JObj [(lit ''price'', JStr (lit ''399''))])]"

text \<open>
  A web on which every request settles in the given way, a block that is not
  typed as a product but has an offer with a price, and the title
  \<^verbatim>\<open>Example Product - Shop\<close> of the specification, whose dash is U+2013.
\<close>

definition answering :: "js_error + response \<Rightarrow> web" where
  "answering r = \<lparr>URL_valid = (\<lambda>u. True), fetch = (\<lambda>u t. r), cheerio_load = (\<lambda>h. [])\<rparr>"

definition listing :: jsval where
  "listing = JObj [(lit ''@type'', JStr (lit ''WebPage'')), (lit ''name'', JStr (lit ''BILLY'')),
                   (lit ''image'', JStr (lit ''https://shop.example/billy.png'')),
                   (lit ''offers'', JObj [(lit ''price'', JStr (lit ''399''))])]"

definition example_title :: jsstring where
  "example_title = lit ''Example Product '' @ [8211] @ lit '' Shop''"

text \<open>A product block with a list of images and a list of offers.\<close>

definition catalogue :: jsval where
  "catalogue = JObj [(lit ''@type'', JStr (lit ''Product'')), (lit ''name'', JStr (lit ''BILLY'')),
                     (lit ''description'', JStr (lit ''Bookcase'')),
                     (lit ''image'', JArr [JStr (lit ''a.png''), JStr (lit ''b.png'')]),
                     (lit ''offers'', JArr [JObj [(lit ''price'', JStr (lit ''399.50''))]])]"

text \<open>A product block without a name, and a block with a free offer and no name.\<close>

definition nameless :: jsval where
  "nameless = JObj [(lit ''@type'', JStr (lit ''Product'')),
                    (lit ''offers'', JObj [(lit ''price'', JStr (lit ''5''))])]"

definition free_offer :: jsval where
  "free_offer = JObj [(lit ''offers'', JObj [(lit ''price'', JStr (lit ''0''))])]"

definition shop_url :: jsstring where
  "shop_url = lit ''https://shop.example/p/1''"

section \<open>Properties\<close>

subsection \<open>Evaluation and helper lemmas\<close>

text \<open>The definitions that the simplifier unfolds to run the model on a concrete page.\<close>

lemmas js_eval = lit_def is_digit_def is_space_def trim_def match_run_def replace_all_def
  num_truthy_def isNaN_def num_pos_def digits_val_def pow10_def exponent_part_def
  unsigned_literal_def signed_literal_def parseFloat_def
  to_lower_def toLowerCase_def ignores_case_def attr_equals_def
  select_attr_def select_tag_def select_has_def attr_def text_of_def present_def
  empty_data_def keys_length_def title_truthy_def price_truthy_def
  price_char_def comma_or_space_def og_def extractOpenGraph_def extractFromSchema_def
  jsonLdScripts_def extractJsonLd_def meta_name_def extractBasicMeta_def
  price_text_char_def meta_price_def Error_def fetchUrl_def select_data_def validate_data_def
  extractProductInfo_def ExtractionFailed_def meta_property_def meta_named_def title_element_def
  ld_script_def ld_script_as_def serving_def billy_def shop_url_def no_open_graph_def no_signals_def member_def
  irrelevant_def offer_price_def answering_def listing_def example_title_def catalogue_def
  nameless_def free_offer_def


text \<open>
  A comma ends every literal: \<^verbatim>\<open>parseFloat\<close> reads the text of an array, whose
  entries are joined by commas, as it reads the text of the first entry alone.
  This is the fact behind the array case of \<open>parseFloat_val\<close>.
\<close>

lemma takeWhile_digit_comma: "takeWhile is_digit (xs @ 44 # ys) = takeWhile is_digit xs"
  by (induction xs) (simp_all add: is_digit_def)

lemma dropWhile_digit_comma: "dropWhile is_digit (xs @ 44 # ys) = dropWhile is_digit xs @ 44 # ys"
  by (induction xs) (simp_all add: is_digit_def)

lemma dropWhile_space_comma: "dropWhile is_space (xs @ 44 # ys) = dropWhile is_space xs @ 44 # ys"
  by (induction xs) (simp_all add: is_space_def)

lemma exponent_part_comma: "exponent_part (r @ 44 # t) = exponent_part r"
proof (cases r)
  case Nil
  then show ?thesis by (simp add: exponent_part_def)
next
  case (Cons e r1)
  show ?thesis
  proof (cases r1)
    case Nil
    with Cons show ?thesis by (simp add: exponent_part_def is_digit_def digits_val_def)
  next
    case (Cons s r2)
    with \<open>r = e # r1\<close> show ?thesis
      using takeWhile_digit_comma [of r2 t] takeWhile_digit_comma [of "s # r2" t]
      by (simp add: exponent_part_def del: takeWhile.simps)
  qed
qed

lemma unsigned_literal_comma: "unsigned_literal (u @ 44 # t) = unsigned_literal u"
proof (cases "dropWhile is_digit u")
  case Nil
  have "exponent_part (44 # t) = exponent_part []"
    using exponent_part_comma [of "[]" t] by simp
  then show ?thesis
    unfolding unsigned_literal_def dropWhile_digit_comma takeWhile_digit_comma Nil
    by (simp add: Let_def)
next
  case (Cons c r1)
  have "exponent_part (c # r1 @ 44 # t) = exponent_part (c # r1)"
    using exponent_part_comma [of "c # r1" t] by simp
  then show ?thesis
    unfolding unsigned_literal_def dropWhile_digit_comma takeWhile_digit_comma Cons
    by (simp add: Let_def dropWhile_digit_comma takeWhile_digit_comma exponent_part_comma)
qed

lemma take_Infinity_comma: "take 8 (u @ 44 # t) = lit ''Infinity'' \<longleftrightarrow> take 8 u = lit ''Infinity''"
proof (cases "8 \<le> length u")
  case True
  then show ?thesis by simp
next
  case False
  then have "44 \<in> set (take 8 (u @ 44 # t))"
    by (simp add: take_Cons')
  moreover have "44 \<notin> set (lit ''Infinity'')" by (simp add: lit_def)
  moreover from False have "length (take 8 u) \<noteq> length (lit ''Infinity'')" by (simp add: lit_def)
  ultimately show ?thesis by metis
qed

lemma signed_literal_comma: "signed_literal neg (u @ 44 # t) = signed_literal neg u"
  by (simp add: signed_literal_def take_Infinity_comma unsigned_literal_comma del: take_append)

lemma parseFloat_comma: "parseFloat (s @ 44 # r) = parseFloat s"
proof (cases "dropWhile is_space s")
  case Nil
  have "signed_literal False (44 # r) = NaN"
    using signed_literal_comma [of False "[]" r]
    by (simp add: signed_literal_def unsigned_literal_def lit_def)
  then show ?thesis
    unfolding parseFloat_def dropWhile_space_comma Nil by simp
next
  case (Cons c u)
  have "signed_literal False (c # u @ 44 # r) = signed_literal False (c # u)"
    using signed_literal_comma [of False "c # u" r] by simp
  then show ?thesis
    unfolding parseFloat_def dropWhile_space_comma Cons
    by (simp add: signed_literal_comma)
qed

text \<open>Every record that a strategy returns has a key.\<close>

lemma extractOpenGraph_nonempty: "extractOpenGraph doc = Some d \<Longrightarrow> 0 < keys_length d"
  by (simp add: extractOpenGraph_def Let_def split: if_splits)

lemma extractBasicMeta_nonempty: "extractBasicMeta doc = Some d \<Longrightarrow> 0 < keys_length d"
  by (simp add: extractBasicMeta_def Let_def split: if_splits)

lemma extractFromSchema_nonempty: "extractFromSchema obj = Inr (Some d) \<Longrightarrow> 0 < keys_length d"
  by (auto simp: extractFromSchema_def Let_def split: sum.splits if_splits)

lemma scan_scripts_nonempty: "scan_scripts ss = Inr (Some d) \<Longrightarrow> 0 < keys_length d"
proof (induction ss)
  case Nil
  then show ?case by simp
next
  case (Cons s ss)
  then show ?case
    by (auto simp: keys_length_def dest: extractFromSchema_nonempty split: option.splits sum.splits if_splits)
qed

lemma extractJsonLd_nonempty: "extractJsonLd doc = Some d \<Longrightarrow> 0 < keys_length d"
  by (auto simp: extractJsonLd_def dest: scan_scripts_nonempty split: sum.splits)

lemma scan_scripts_irrelevant: "irrelevant s \<Longrightarrow> scan_scripts (s # rest) = scan_scripts rest"
  by (auto simp: irrelevant_def split: option.splits sum.splits)

lemma scan_scripts_append: "list_all irrelevant pre \<Longrightarrow> scan_scripts (pre @ rest) = scan_scripts rest"
  by (induction pre) (simp_all add: scan_scripts_irrelevant del: scan_scripts.simps(2))

lemma validate_data_Inr: "validate_data d = Inr d' \<Longrightarrow> d' = d"
  by (auto simp: validate_data_def price_truthy_def num_truthy_def isNaN_def split: if_splits option.splits)

lemma validate_data_Inl: "validate_data d = Inl e \<Longrightarrow> e = ExtractionFailed"
  by (auto simp: validate_data_def ExtractionFailed_def split: if_splits)

lemma validate_data_fails_iff:
  "validate_data d = Inl ExtractionFailed \<longleftrightarrow> \<not> title_truthy d \<and> \<not> price_truthy d"
  by (auto simp: validate_data_def ExtractionFailed_def split: if_splits)

lemma digits_val_snoc: "digits_val (ds @ [c]) = 10 * digits_val ds + (c - 48)"
  by (simp add: digits_val_def)

lemma digits_val_decimal: "digits_val (decimal n) = n"
proof (induction n rule: decimal.induct)
  case (1 n)
  show ?case
  proof (cases "n < 10")
    case True
    then show ?thesis by (subst decimal.simps) (simp add: digits_val_def)
  next
    case False
    then have "digits_val (decimal n) = 10 * digits_val (decimal (n div 10)) + n mod 10"
      by (subst decimal.simps) (simp add: digits_val_snoc)
    with False 1 show ?thesis by simp
  qed
qed

lemma decimal_digits: "list_all is_digit (decimal n)"
proof (induction n rule: decimal.induct)
  case (1 n)
  show ?case
  proof (cases "n < 10")
    case True
    then show ?thesis by (subst decimal.simps) (simp add: is_digit_def)
  next
    case False
    have "n mod 10 < 10" by simp
    then have "is_digit (48 + n mod 10)" unfolding is_digit_def by linarith
    with False 1 show ?thesis by (subst decimal.simps) simp
  qed
qed

text \<open>The record chosen in steps 3 and 4, in the words of the specification.\<close>

lemma select_data_first_nonempty:
  "select_data doc = first_nonempty [extractOpenGraph doc, extractJsonLd doc, extractBasicMeta doc]"
proof (cases "extractOpenGraph doc")
  case None
  show ?thesis
  proof (cases "extractJsonLd doc")
    case ld: None
    show ?thesis
    proof (cases "extractBasicMeta doc")
      case bm: None
      with None ld show ?thesis by (simp add: select_data_def)
    next
      case bm: (Some d)
      with None ld extractBasicMeta_nonempty [OF bm] show ?thesis by (simp add: select_data_def)
    qed
  next
    case ld: (Some d)
    with None extractJsonLd_nonempty [OF ld] show ?thesis by (simp add: select_data_def)
  qed
next
  case (Some d)
  with extractOpenGraph_nonempty [OF Some] show ?thesis by (simp add: select_data_def)
qed

lemma first_nonempty_skip: "first_nonempty (r # None # rs) = first_nonempty (r # rs)"
  by (cases r) simp_all

text \<open>A page without the tags or blocks of a strategy gets \<^verbatim>\<open>null\<close> from it.\<close>

lemma no_open_graph_None: "no_open_graph doc \<Longrightarrow> extractOpenGraph doc = None"
  by (simp add: no_open_graph_def extractOpenGraph_def og_def attr_def empty_data_def keys_length_def)

lemma no_scripts_None: "jsonLdScripts doc = [] \<Longrightarrow> extractJsonLd doc = None"
  by (simp add: extractJsonLd_def)

lemma no_signals_empty: "no_signals doc \<Longrightarrow> select_data doc = empty_data"
proof -
  assume n: "no_signals doc"
  then have "extractOpenGraph doc = None" by (simp add: no_signals_def no_open_graph_None)
  moreover from n have "extractJsonLd doc = None" by (simp add: no_signals_def no_scripts_None)
  moreover from n have "extractBasicMeta doc = None"
    by (simp add: no_signals_def extractBasicMeta_def meta_name_def attr_def present_def text_of_def
        empty_data_def keys_length_def)
  ultimately show ?thesis by (simp add: select_data_def)
qed

text \<open>The loop of the JSON-LD strategy at the first block that it does not pass over.\<close>

lemma scan_scripts_malformed:
  assumes "list_all irrelevant pre" and "json_html bad = None"
  shows "scan_scripts (pre @ bad # post) = Inl SyntaxError"
  using assms by (simp add: scan_scripts_append)










text \<open>The basic meta strategy, field by field.\<close>

lemma extractBasicMeta_title_meta:
  assumes "meta_name doc ''title'' = Some c" and "c \<noteq> []"
  shows "map_option title (extractBasicMeta doc) = Some (Some (JStr (trim c)))"
  using assms
  by (simp add: extractBasicMeta_def present_def empty_data_def keys_length_def Let_def
      split: option.splits)

lemma extractBasicMeta_title_element:
  assumes "\<not> present (meta_name doc ''title'')" and "text_of (select_tag doc (lit ''title'')) \<noteq> []"
  shows "map_option title (extractBasicMeta doc) =
           Some (Some (JStr (trim (text_of (select_tag doc (lit ''title''))))))"
  using assms
  by (simp add: extractBasicMeta_def empty_data_def keys_length_def Let_def split: option.splits)

lemma extractBasicMeta_description:
  assumes "meta_name doc ''description'' = Some c" and "c \<noteq> []"
  shows "map_option description (extractBasicMeta doc) = Some (Some (JStr (trim c)))"
  using assms
  by (simp add: extractBasicMeta_def empty_data_def keys_length_def Let_def split: option.splits)

lemma extractBasicMeta_None_iff:
  "extractBasicMeta doc = None \<longleftrightarrow>
     \<not> present (meta_name doc ''title'') \<and> text_of (select_tag doc (lit ''title'')) = [] \<and>
     \<not> present (meta_name doc ''description'')"
  by (auto simp: extractBasicMeta_def present_def empty_data_def keys_length_def Let_def
      split: option.splits)

lemma trim_example_title: "trim example_title = example_title"
  by (simp add: js_eval)

lemma extractBasicMeta_example:
  assumes "select_attr doc (lit ''meta'') (lit ''name'') (lit ''title'') = []"
    and "map textContent (select_tag doc (lit ''title'')) = [example_title]"
    and "meta_name doc ''description'' = Some c" and "c \<noteq> []"
  shows "extractBasicMeta doc =
           Some \<lparr>title = Some (JStr example_title), price = None,
                 description = Some (JStr (trim c)), image' = None\<rparr>"
proof -
  have t: "meta_name doc ''title'' = None" using assms(1) by (simp add: meta_name_def attr_def)
  have x: "text_of (select_tag doc (lit ''title'')) = example_title"
    using assms(2) by (simp add: text_of_def)
  have ne: "example_title \<noteq> []" by (simp add: example_title_def)
  from t x ne assms(3,4) show ?thesis
    by (simp add: extractBasicMeta_def present_def empty_data_def keys_length_def trim_example_title)
qed

subsection \<open>The strategy cascade\<close>

text \<open>
  C5: \<^verbatim>\<open>extractProductInfo\<close> never merges fields across strategies. Once the page
  is fetched, the record it validates is the output of the first strategy, in
  the order Open Graph, JSON-LD, basic meta, that produced a non-empty record
  (the empty record when none did), and a successful call returns exactly that
  record, with no field of a later strategy added.
\<close>

theorem first_strategy_wins:
  assumes "fetchUrl w url 5000 = Inr html"
  shows "extractProductInfo w url =
           validate_data (first_nonempty [extractOpenGraph (cheerio_load w html),
                                          extractJsonLd (cheerio_load w html),
                                          extractBasicMeta (cheerio_load w html)]) \<and>
         (\<forall>d. extractProductInfo w url = Inr d \<longrightarrow>
              d = first_nonempty [extractOpenGraph (cheerio_load w html),
                                  extractJsonLd (cheerio_load w html),
                                  extractBasicMeta (cheerio_load w html)])"
proof -
  have run: "extractProductInfo w url = validate_data (select_data (cheerio_load w html))"
    using assms by (simp add: extractProductInfo_def)
  then show ?thesis
    by (auto simp: select_data_first_nonempty dest: validate_data_Inr)
qed

theorem first_strategy_wins_witness:
  "fetchUrl (serving [meta_property ''og:title'' (lit ''BILLY''), ld_script (Some billy)]) shop_url 5000 = Inr [] \<and>
   extractJsonLd [meta_property ''og:title'' (lit ''BILLY''), ld_script (Some billy)] =
     Some \<lparr>title = Some (JStr (lit ''BILLY'')), price = Some (Fin 399), description = None, image' = None\<rparr> \<and>
   extractProductInfo (serving [meta_property ''og:title'' (lit ''BILLY''), ld_script (Some billy)]) shop_url =
     Inr \<lparr>title = Some (JStr (lit ''BILLY'')), price = None, description = None, image' = None\<rparr>"
  using first_strategy_wins [of "serving [meta_property ''og:title'' (lit ''BILLY''), ld_script (Some billy)]" shop_url "[]"]
  by (simp add: js_eval)

text \<open>
  C10: in the usability check a price of 0 counts as absent. When the chosen
  record has no truthy title (no title key, or one that holds \<^verbatim>\<open>undefined\<close> or
  the empty text) and the price 0, extraction fails with \<^verbatim>\<open>ExtractionFailed\<close>.
\<close>

theorem zero_price_counts_as_absent:
  assumes "fetchUrl w url 5000 = Inr html"
    and "\<not> title_truthy (select_data (cheerio_load w html))"
    and "price (select_data (cheerio_load w html)) = Some (Fin 0)"
  shows "extractProductInfo w url = Inl ExtractionFailed"
  using assms
  by (simp add: extractProductInfo_def validate_data_def ExtractionFailed_def
      price_truthy_def num_truthy_def)

theorem zero_price_counts_as_absent_witness:
  "select_data [meta_property ''og:price'' (lit ''0'')] =
     \<lparr>title = None, price = Some (Fin 0), description = None, image' = None\<rparr> \<and>
   extractProductInfo (serving [meta_property ''og:price'' (lit ''0'')]) shop_url = Inl ExtractionFailed \<and>
   select_data [ld_script (Some free_offer)] =
     \<lparr>title = Some JUndefined, price = Some (Fin 0), description = Some JUndefined, image' = None\<rparr> \<and>
   extractProductInfo (serving [ld_script (Some free_offer)]) shop_url = Inl ExtractionFailed"
proof -
  let ?d1 = "[meta_property ''og:price'' (lit ''0'')]"
  let ?d2 = "[ld_script (Some free_offer)]"
  have f: "\<And>doc. fetchUrl (serving doc) shop_url 5000 = Inr []" by (simp add: js_eval)
  have c: "\<And>doc. cheerio_load (serving doc) [] = doc" by (simp add: serving_def)
  have s1: "select_data ?d1 =
     \<lparr>title = None, price = Some (Fin 0), description = None, image' = None\<rparr>"
    by (simp add: js_eval)
  have s2: "select_data ?d2 =
     \<lparr>title = Some JUndefined, price = Some (Fin 0), description = Some JUndefined, image' = None\<rparr>"
    by (simp add: js_eval free_offer_def)
  have t1: "\<not> title_truthy (select_data ?d1)" unfolding s1 by (simp add: title_truthy_def)
  have t2: "\<not> title_truthy (select_data ?d2)" unfolding s2 by (simp add: title_truthy_def)
  have p1: "price (select_data ?d1) = Some (Fin 0)" unfolding s1 by simp
  have p2: "price (select_data ?d2) = Some (Fin 0)" unfolding s2 by simp
  from zero_price_counts_as_absent [OF f, unfolded c, OF t1 p1]
    zero_price_counts_as_absent [OF f, unfolded c, OF t2 p2] s1 s2
  show ?thesis by simp
qed

text \<open>
  C9: when the Open Graph strategy finds only an \<^verbatim>\<open>og:image\<close> (no title, price
  or description), it returns the record holding that image alone; the cascade
  stops there, whatever JSON-LD blocks and basic meta tags the page has, and
  extraction fails with \<^verbatim>\<open>ExtractionFailed\<close>.
\<close>

theorem og_image_only_short_circuits:
  assumes "fetchUrl w url 5000 = Inr html"
    and "\<not> present (og (cheerio_load w html) ''og:title'')"
    and "\<not> present (og (cheerio_load w html) ''og:price'')"
    and "\<not> present (og (cheerio_load w html) ''og:description'')"
    and "og (cheerio_load w html) ''og:image'' = Some u" and "u \<noteq> []"
  shows "extractOpenGraph (cheerio_load w html) =
           Some \<lparr>title = None, price = None, description = None, image' = Some (JStr (trim u))\<rparr> \<and>
         select_data (cheerio_load w html) =
           \<lparr>title = None, price = None, description = None, image' = Some (JStr (trim u))\<rparr> \<and>
         extractProductInfo w url = Inl ExtractionFailed"
proof -
  let ?doc = "cheerio_load w html"
  have og: "extractOpenGraph ?doc =
           Some \<lparr>title = None, price = None, description = None, image' = Some (JStr (trim u))\<rparr>"
    using assms(2-6)
    by (auto simp: extractOpenGraph_def present_def empty_data_def keys_length_def split: option.splits)
  then have sel: "select_data ?doc =
           \<lparr>title = None, price = None, description = None, image' = Some (JStr (trim u))\<rparr>"
    by (simp add: select_data_def)
  have "extractProductInfo w url = Inl ExtractionFailed"
    using assms(1) sel
    by (simp add: extractProductInfo_def validate_data_def ExtractionFailed_def title_truthy_def price_truthy_def)
  with og sel show ?thesis by simp
qed

theorem og_image_only_short_circuits_witness:
  "extractJsonLd [meta_property ''og:image'' (lit ''https://shop.example/billy.png''), ld_script (Some billy)] =
     Some \<lparr>title = Some (JStr (lit ''BILLY'')), price = Some (Fin 399), description = None, image' = None\<rparr> \<and>
   extractProductInfo
     (serving [meta_property ''og:image'' (lit ''https://shop.example/billy.png''), ld_script (Some billy)])
     shop_url = Inl ExtractionFailed"
proof -
  let ?doc = "[meta_property ''og:image'' (lit ''https://shop.example/billy.png''), ld_script (Some billy)]"
  have f: "fetchUrl (serving ?doc) shop_url 5000 = Inr []"
    by (simp add: js_eval)
  have c: "cheerio_load (serving ?doc) [] = ?doc"
    by (simp add: serving_def)
  have t: "\<not> present (og ?doc ''og:title'')" by (simp add: js_eval)
  have p: "\<not> present (og ?doc ''og:price'')" by (simp add: js_eval)
  have d: "\<not> present (og ?doc ''og:description'')" by (simp add: js_eval)
  have i: "og ?doc ''og:image'' = Some (lit ''https://shop.example/billy.png'')" by (simp add: js_eval)
  have n: "lit ''https://shop.example/billy.png'' \<noteq> []" by (simp add: lit_def)
  have ld: "extractJsonLd ?doc =
     Some \<lparr>title = Some (JStr (lit ''BILLY'')), price = Some (Fin 399), description = None, image' = None\<rparr>"
    by (simp add: js_eval)
  from og_image_only_short_circuits [OF f, unfolded c, OF t p d i n] ld show ?thesis by simp
qed

subsection \<open>Prices\<close>

text \<open>
  C1: for a page whose Open Graph tags carry a title and a well-formed price
  text, the price returned is the number that the text denotes once grouping
  separators are removed and the remaining separator is read as the decimal
  point; \<^verbatim>\<open>og:price\<close> content \<^verbatim>\<open>1 299,00\<close> is to give 1299.00. The code turns the
  space and the comma both into dots and \<^verbatim>\<open>parseFloat\<close> stops at the second dot:
  it returns 1.299. A price without grouping, \<^verbatim>\<open>999,50 SEK\<close> (the example of
  the code's own comment), gives 999.5, and the normalisation of
  \<^verbatim>\<open>extractPriceFromMeta\<close> gives 1299 on \<^verbatim>\<open>1 299,00\<close>.
\<close>

theorem og_price_grouped_evaluation:
  "extractProductInfo
     (serving [meta_property ''og:title'' (lit ''BILLY''), meta_property ''og:price'' (lit ''1 299,00'')])
     shop_url =
     Inr \<lparr>title = Some (JStr (lit ''BILLY'')), price = Some (Fin (1299 / 1000)),
          description = None, image' = None\<rparr> \<and>
   extractProductInfo
     (serving [meta_property ''og:title'' (lit ''BILLY''), meta_property ''og:price'' (lit ''999,50 SEK'')])
     shop_url =
     Inr \<lparr>title = Some (JStr (lit ''BILLY'')), price = Some (Fin (1999 / 2)),
          description = None, image' = None\<rparr> \<and>
   meta_price (lit ''1 299,00'') = Fin 1299"
  by (simp add: js_eval)

text \<open>
  C3: the record returned by a successful call is to carry no \<^verbatim>\<open>NaN\<close> and no
  negative price. Step 6 deletes the price under the condition
  \<^verbatim>\<open>data.price && isNaN(data.price)\<close>, which no number satisfies (\<^verbatim>\<open>NaN\<close> is
  falsy), so a \<^verbatim>\<open>NaN\<close> price stays in the record: the \<^verbatim>\<open>og:price\<close> content
  \<^verbatim>\<open>Rs. 499\<close> matches as \<^verbatim>\<open>. 499\<close>, becomes \<^verbatim>\<open>..499\<close> and parses to \<^verbatim>\<open>NaN\<close>. No
  step looks at the sign: the JSON-LD price \<^verbatim>\<open>-5\<close> is returned as -5.
\<close>

theorem nan_price_returned:
  "extractProductInfo
     (serving [meta_property ''og:title'' (lit ''Lamp''), meta_property ''og:price'' (lit ''Rs. 499'')])
     shop_url =
     Inr \<lparr>title = Some (JStr (lit ''Lamp'')), price = Some NaN, description = None, image' = None\<rparr> \<and>
   extractProductInfo
     (serving [ld_script (Some (JObj [(lit ''@type'', JStr (lit ''Product'')),
                                      (lit ''name'', JStr (lit ''Lamp'')),
                                      (lit ''offers'', JObj [(lit ''price'', JStr (lit ''-5''))])]))])
     shop_url =
     Inr \<lparr>title = Some (JStr (lit ''Lamp'')), price = Some (Fin (- 5)), description = None, image' = None\<rparr>"
  by (simp add: js_eval)

subsection \<open>Failure of the extraction\<close>

text \<open>
  C4, as stated: extraction fails with \<^verbatim>\<open>ExtractionFailed\<close> if and only if the
  chosen record has neither a title nor a price, and it fails for every
  document with no Open Graph tags, no JSON-LD and no basic meta tags. The
  record chosen for a page whose only signal is \<^verbatim>\<open>og:price\<close> with content
  \<^verbatim>\<open>0.00\<close> has a price, the number 0, and extraction fails on it. A page that
  has none of those tags and a title element yields that title.
\<close>

theorem zero_price_record_fails:
  "price (select_data [meta_property ''og:price'' (lit ''0.00'')]) = Some (Fin 0) \<and>
   extractProductInfo (serving [meta_property ''og:price'' (lit ''0.00'')]) shop_url = Inl ExtractionFailed \<and>
   extractProductInfo (serving [title_element (lit ''BILLY'')]) shop_url =
     Inr \<lparr>title = Some (JStr (lit ''BILLY'')), price = None, description = None, image' = None\<rparr>"
  by (simp add: js_eval)

text \<open>
  C4, amended: once the page is fetched, extraction fails with
  \<^verbatim>\<open>ExtractionFailed\<close> (message "Could not find product information on this
  page.") if and only if the chosen record has neither a truthy title nor a
  truthy price, where a missing, \<^verbatim>\<open>undefined\<close> or empty title and a missing, zero
  or \<^verbatim>\<open>NaN\<close> price are not truthy. In particular it fails for every document
  with no Open Graph tags, no JSON-LD script, no meta tag named title or
  description and no title element.
\<close>

theorem extraction_fails_iff:
  assumes "fetchUrl w url 5000 = Inr html"
  shows "(extractProductInfo w url = Inl ExtractionFailed \<longleftrightarrow>
            \<not> title_truthy (select_data (cheerio_load w html)) \<and>
            \<not> price_truthy (select_data (cheerio_load w html))) \<and>
         (no_signals (cheerio_load w html) \<longrightarrow> extractProductInfo w url = Inl ExtractionFailed)"
proof -
  have run: "extractProductInfo w url = validate_data (select_data (cheerio_load w html))"
    using assms by (simp add: extractProductInfo_def)
  have "no_signals (cheerio_load w html) \<Longrightarrow> validate_data (select_data (cheerio_load w html)) = Inl ExtractionFailed"
    by (simp add: no_signals_empty validate_data_fails_iff empty_data_def title_truthy_def price_truthy_def)
  with run show ?thesis by (simp add: validate_data_fails_iff)
qed

theorem extraction_fails_iff_witness:
  "no_signals [meta_named ''viewport'' (lit ''width=device-width'')] \<and>
   extractProductInfo (serving [meta_named ''viewport'' (lit ''width=device-width'')]) shop_url = Inl ExtractionFailed \<and>
   title_truthy (select_data [title_element (lit ''BILLY'')]) \<and>
   extractProductInfo (serving [title_element (lit ''BILLY'')]) shop_url \<noteq> Inl ExtractionFailed"
proof -
  let ?d1 = "[meta_named ''viewport'' (lit ''width=device-width'')]"
  let ?d2 = "[title_element (lit ''BILLY'')]"
  have f: "\<And>doc. fetchUrl (serving doc) shop_url 5000 = Inr []" by (simp add: js_eval)
  have c: "\<And>doc. cheerio_load (serving doc) [] = doc" by (simp add: serving_def)
  have n: "no_signals ?d1" by (simp add: js_eval)
  have t: "title_truthy (select_data ?d2)" by (simp add: js_eval)
  from extraction_fails_iff [OF f, of ?d1] extraction_fails_iff [OF f, of ?d2] n t show ?thesis
    by (simp add: c)
qed

subsection \<open>Fetching\<close>

text \<open>
  C8: for a URL that \<^verbatim>\<open>new URL\<close> accepts, a response whose \<^verbatim>\<open>ok\<close> flag is false
  makes \<^verbatim>\<open>fetchUrl\<close> fail with the error "Website returned error: " followed by
  the decimal digits of the status code, and a \<^verbatim>\<open>fetch\<close> rejected with an
  \<^verbatim>\<open>AbortError\<close> (the timer cancelled the request) makes it fail with the error
  "Request timed out. Website took too long to respond."; in both cases the
  result is the failure and no markup.
\<close>

theorem fetchUrl_failures:
  assumes "URL_valid w url"
  shows "(\<forall>r. fetch w url t = Inr r \<and> \<not> ok r \<longrightarrow>
            fetchUrl w url t = Inl (Error (lit ''Website returned error: '' @ decimal (status r))) \<and>
            digits_val (decimal (status r)) = status r) \<and>
         (\<forall>e. fetch w url t = Inl e \<and> name e = lit ''AbortError'' \<longrightarrow>
            fetchUrl w url t = Inl (Error (lit ''Request timed out. Website took too long to respond.'')))"
  using assms by (simp add: fetchUrl_def Error_def lit_def digits_val_decimal)

theorem fetchUrl_failures_witness:
  "fetchUrl (answering (Inr \<lparr>ok = False, status = 404, body_text = Inr (lit ''Not Found'')\<rparr>)) shop_url 5000 =
     Inl (Error (lit ''Website returned error: 404'')) \<and>
   fetchUrl (answering (Inl \<lparr>name = lit ''AbortError'', message = lit ''This operation was aborted''\<rparr>)) shop_url 5000 =
     Inl (Error (lit ''Request timed out. Website took too long to respond.''))"
proof -
  have v: "\<And>r. URL_valid (answering r) shop_url" by (simp add: answering_def)
  have a: "fetchUrl (answering (Inr \<lparr>ok = False, status = 404, body_text = Inr (lit ''Not Found'')\<rparr>)) shop_url 5000 =
     Inl (Error (lit ''Website returned error: '' @ decimal 404))"
    using fetchUrl_failures [OF v, of "Inr \<lparr>ok = False, status = 404, body_text = Inr (lit ''Not Found'')\<rparr>" 5000]
    by (simp add: answering_def)
  have b: "fetchUrl (answering (Inl \<lparr>name = lit ''AbortError'', message = lit ''This operation was aborted''\<rparr>)) shop_url 5000 =
     Inl (Error (lit ''Request timed out. Website took too long to respond.''))"
    using fetchUrl_failures [OF v, of "Inl \<lparr>name = lit ''AbortError'', message = lit ''This operation was aborted''\<rparr>" 5000]
    by (simp add: answering_def)
  have d: "lit ''Website returned error: '' @ decimal 404 = lit ''Website returned error: 404''"
    by (simp add: lit_def decimal.simps)
  from a b d show ?thesis by simp
qed

subsection \<open>JSON-LD blocks\<close>

text \<open>
  C2, as stated: a parse failure in one JSON-LD block is swallowed and the
  following blocks are still tried, so the strategy does not return \<^verbatim>\<open>null\<close>
  merely because a malformed block precedes a relevant well-formed one. The
  block of the specification alone is extracted; behind a malformed block it
  is not, and the strategy returns \<^verbatim>\<open>null\<close>.
\<close>

theorem malformed_block_hides_later_block:
  "extractJsonLd [ld_script (Some billy)] =
     Some \<lparr>title = Some (JStr (lit ''BILLY'')), price = Some (Fin 399), description = None, image' = None\<rparr> \<and>
   extractJsonLd [ld_script None, ld_script (Some billy)] = None"
  by (simp add: js_eval)

text \<open>
  C2, amended: a parse failure in a JSON-LD block is swallowed by the handler
  around the whole loop. When the blocks before the malformed one were all
  passed over, the strategy returns \<^verbatim>\<open>null\<close> and the blocks after it are not
  tried. The extraction is not aborted: it validates the record of the Open
  Graph strategy or else of the basic meta strategy.
\<close>

theorem malformed_block_ends_scan:
  assumes "fetchUrl w url 5000 = Inr html"
    and "jsonLdScripts (cheerio_load w html) = pre @ bad # post"
    and "list_all irrelevant pre"
    and "json_html bad = None"
  shows "extractJsonLd (cheerio_load w html) = None \<and>
         extractProductInfo w url =
           validate_data (first_nonempty [extractOpenGraph (cheerio_load w html),
                                          extractBasicMeta (cheerio_load w html)])"
proof -
  let ?doc = "cheerio_load w html"
  have ld: "extractJsonLd ?doc = None"
    using assms(2-4) by (simp add: extractJsonLd_def scan_scripts_malformed)
  have "extractProductInfo w url = validate_data (select_data ?doc)"
    using assms(1) by (simp add: extractProductInfo_def)
  with ld show ?thesis by (simp add: select_data_first_nonempty first_nonempty_skip)
qed

theorem malformed_block_ends_scan_witness:
  "extractProductInfo
     (serving [ld_script_as ''Application/LD+JSON'' None, ld_script (Some billy),
      title_element (lit ''BILLY - Shop'')]) shop_url =
     Inr \<lparr>title = Some (JStr (lit ''BILLY - Shop'')), price = None, description = None, image' = None\<rparr>"
proof -
  let ?doc = "[ld_script_as ''Application/LD+JSON'' None, ld_script (Some billy),
      title_element (lit ''BILLY - Shop'')]"
  have f: "fetchUrl (serving ?doc) shop_url 5000 = Inr []" by (simp add: js_eval)
  have c: "cheerio_load (serving ?doc) [] = ?doc" by (simp add: serving_def)
  have s: "jsonLdScripts ?doc = [] @ ld_script_as ''Application/LD+JSON'' None # [ld_script (Some billy)]" by (simp add: js_eval)
  have i: "list_all irrelevant ([] :: element list)" by simp
  have b: "json_html (ld_script_as ''Application/LD+JSON'' None) = None" by (simp add: ld_script_as_def)
  have og: "extractOpenGraph ?doc = None" by (simp add: js_eval)
  have bm: "extractBasicMeta ?doc =
      Some \<lparr>title = Some (JStr (lit ''BILLY - Shop'')), price = None, description = None, image' = None\<rparr>"
    by (simp add: js_eval)
  from malformed_block_ends_scan [OF f, unfolded c, OF s i b] og bm show ?thesis
    by (simp add: js_eval)
qed




subsection \<open>Basic meta tags\<close>

text \<open>
  C7, as stated: the basic meta strategy returns as title the content of the
  meta tag named title. The content \<^verbatim>\<open> BILLY \<close>, with a space on each side, is
  returned as \<^verbatim>\<open>BILLY\<close>.
\<close>

theorem basic_meta_title_is_trimmed:
  "meta_name [meta_named ''title'' (lit '' BILLY '')] ''title'' = Some (lit '' BILLY '') \<and>
   extractBasicMeta [meta_named ''title'' (lit '' BILLY '')] =
     Some \<lparr>title = Some (JStr (lit ''BILLY'')), price = None, description = None, image' = None\<rparr>"
  by (simp add: js_eval)

text \<open>
  C7, amended: the basic meta strategy returns as title the trimmed content of
  the meta tag named title when that content is not empty, and otherwise the
  trimmed text of the title elements when that text is not empty; as
  description the trimmed content of the meta tag named description when it is
  not empty. It returns \<^verbatim>\<open>null\<close> exactly when all three are missing or empty.
  In particular a page with no Open Graph tags, no JSON-LD block and no meta
  tag named title, whose title element reads "Example Product - Shop" (with
  the dash U+2013) and whose description content is not empty, yields that
  title and the trimmed description, and nothing else.
\<close>

theorem basic_meta_fields:
  "(\<forall>c. meta_name doc ''title'' = Some c \<and> c \<noteq> [] \<longrightarrow>
       map_option title (extractBasicMeta doc) = Some (Some (JStr (trim c)))) \<and>
   (\<not> present (meta_name doc ''title'') \<and> text_of (select_tag doc (lit ''title'')) \<noteq> [] \<longrightarrow>
       map_option title (extractBasicMeta doc) =
         Some (Some (JStr (trim (text_of (select_tag doc (lit ''title''))))))) \<and>
   (\<forall>c. meta_name doc ''description'' = Some c \<and> c \<noteq> [] \<longrightarrow>
       map_option description (extractBasicMeta doc) = Some (Some (JStr (trim c)))) \<and>
   (extractBasicMeta doc = None \<longleftrightarrow>
       \<not> present (meta_name doc ''title'') \<and> text_of (select_tag doc (lit ''title'')) = [] \<and>
       \<not> present (meta_name doc ''description'')) \<and>
   (\<forall>c. fetchUrl w url 5000 = Inr html \<and> cheerio_load w html = doc \<and>
        no_open_graph doc \<and> jsonLdScripts doc = [] \<and>
        select_attr doc (lit ''meta'') (lit ''name'') (lit ''title'') = [] \<and>
        map textContent (select_tag doc (lit ''title'')) = [example_title] \<and>
        meta_name doc ''description'' = Some c \<and> c \<noteq> [] \<longrightarrow>
      extractProductInfo w url =
        Inr \<lparr>title = Some (JStr example_title), price = None,
             description = Some (JStr (trim c)), image' = None\<rparr>)"
proof -
  have example: "extractProductInfo w url =
        Inr \<lparr>title = Some (JStr example_title), price = None,
             description = Some (JStr (trim c)), image' = None\<rparr>"
    if a: "fetchUrl w url 5000 = Inr html \<and> cheerio_load w html = doc \<and>
        no_open_graph doc \<and> jsonLdScripts doc = [] \<and>
        select_attr doc (lit ''meta'') (lit ''name'') (lit ''title'') = [] \<and>
        map textContent (select_tag doc (lit ''title'')) = [example_title] \<and>
        meta_name doc ''description'' = Some c \<and> c \<noteq> []" for c
  proof -
    from a have f: "fetchUrl w url 5000 = Inr html" and d: "cheerio_load w html = doc"
      and og: "no_open_graph doc" and ld: "jsonLdScripts doc = []"
      and mt: "select_attr doc (lit ''meta'') (lit ''name'') (lit ''title'') = []"
      and tt: "map textContent (select_tag doc (lit ''title'')) = [example_title]"
      and md: "meta_name doc ''description'' = Some c" and ne: "c \<noteq> []"
      by blast+
    have bm: "extractBasicMeta doc =
           Some \<lparr>title = Some (JStr example_title), price = None,
                 description = Some (JStr (trim c)), image' = None\<rparr>"
      using mt tt md ne by (rule extractBasicMeta_example)
    have "extractOpenGraph doc = None" "extractJsonLd doc = None"
      using og ld by (simp_all add: no_open_graph_None no_scripts_None)
    with bm have "select_data doc =
           \<lparr>title = Some (JStr example_title), price = None,
                 description = Some (JStr (trim c)), image' = None\<rparr>"
      by (simp add: select_data_def)
    moreover have "example_title \<noteq> []" by (simp add: example_title_def)
    ultimately show ?thesis using f d
      by (simp add: extractProductInfo_def validate_data_def title_truthy_def price_truthy_def)
  qed
  from extractBasicMeta_title_meta [of doc] extractBasicMeta_title_element [of doc]
    extractBasicMeta_description [of doc] extractBasicMeta_None_iff [of doc] example
  show ?thesis by blast
qed

theorem basic_meta_fields_witness:
  "extractBasicMeta [meta_named ''title'' (lit ''BILLY Bookcase ''), title_element (lit ''Shop'')] =
     Some \<lparr>title = Some (JStr (lit ''BILLY Bookcase'')), price = None, description = None, image' = None\<rparr> \<and>
   extractBasicMeta [meta_named ''viewport'' (lit ''width=device-width'')] = None \<and>
   extractProductInfo
     (serving [title_element example_title, meta_named ''description'' (lit ''A sturdy bookcase. '')])
     shop_url =
     Inr \<lparr>title = Some (JStr (lit ''Example Product '' @ [8211] @ lit '' Shop'')), price = None,
          description = Some (JStr (lit ''A sturdy bookcase.'')), image' = None\<rparr>"
proof -
  let ?d1 = "[meta_named ''title'' (lit ''BILLY Bookcase ''), title_element (lit ''Shop'')]"
  let ?d2 = "[meta_named ''viewport'' (lit ''width=device-width'')]"
  let ?d3 = "[title_element example_title, meta_named ''description'' (lit ''A sturdy bookcase. '')]"
  have m1: "meta_name ?d1 ''title'' = Some (lit ''BILLY Bookcase '')" by (simp add: js_eval)
  have m1': "meta_name ?d1 ''description'' = None" by (simp add: js_eval)
  have n1: "lit ''BILLY Bookcase '' \<noteq> []" by (simp add: lit_def)
  have t1: "trim (lit ''BILLY Bookcase '') = lit ''BILLY Bookcase''" by (simp add: js_eval)
  from basic_meta_fields [of ?d1] m1 n1 t1
  have "map_option title (extractBasicMeta ?d1) = Some (Some (JStr (lit ''BILLY Bookcase'')))"
    by simp
  moreover have "map_option price (extractBasicMeta ?d1) = Some None"
    "map_option description (extractBasicMeta ?d1) = Some None"
    "map_option image' (extractBasicMeta ?d1) = Some None"
    by (simp_all add: js_eval)
  ultimately have one: "extractBasicMeta ?d1 =
     Some \<lparr>title = Some (JStr (lit ''BILLY Bookcase'')), price = None, description = None, image' = None\<rparr>"
    by (cases "extractBasicMeta ?d1") auto
  have two: "extractBasicMeta ?d2 = None"
    using basic_meta_fields [of ?d2] by (simp add: js_eval)
  have f: "fetchUrl (serving ?d3) shop_url 5000 = Inr []" by (simp add: js_eval)
  have c: "cheerio_load (serving ?d3) [] = ?d3" by (simp add: serving_def)
  have h: "no_open_graph ?d3" "jsonLdScripts ?d3 = []"
    "select_attr ?d3 (lit ''meta'') (lit ''name'') (lit ''title'') = []"
    "map textContent (select_tag ?d3 (lit ''title'')) = [example_title]"
    "meta_name ?d3 ''description'' = Some (lit ''A sturdy bookcase. '')"
    "lit ''A sturdy bookcase. '' \<noteq> []"
    "trim (lit ''A sturdy bookcase. '') = lit ''A sturdy bookcase.''"
    by (simp_all add: js_eval)
  from basic_meta_fields [of ?d3 "serving ?d3" shop_url "[]"] f c h
  have three: "extractProductInfo (serving ?d3) shop_url =
     Inr \<lparr>title = Some (JStr example_title), price = None,
          description = Some (JStr (lit ''A sturdy bookcase.'')), image' = None\<rparr>"
    by simp
  from one two three show ?thesis by (simp add: example_title_def)
qed

end
